theory Spec2Isabelle
  imports Complex_Main "HOL-Library.Sublist"
begin

section \<open>The mock API service (src/src/services/api.ts)\<close>

subsection \<open>Data types (src/complete-frontend/src/types/index.ts)\<close>

text \<open>
  Strings are character lists. A JavaScript \<^verbatim>\<open>Date\<close> is its time value in milliseconds
  (an integer); \<^verbatim>\<open>None\<close> stands for an invalid date (\<^verbatim>\<open>NaN\<close>). An optional field
  (\<^verbatim>\<open>email?: string\<close>) is an \<open>option\<close>.
\<close>

record user =
  uid :: string
  name :: string
  dateOfBirth :: string
  email :: "string option"
  avatar :: "string option"

datatype gender = Male | Female | Other

datatype level = Low | Moderate | High

record patient = user +
  age :: "int option"
  gender :: gender
  location :: string
  height :: string
  weight :: string
  bmi :: rat
  bloodType :: string
  activityLevel :: level
  dietaryPreferences :: string
  sleepHours :: string
  stressLevel :: level
  allergies :: "string list"
  chronicConditions :: "string list"
  medications :: "string list"

datatype sender = FromUser | FromAI

datatype message_type = TextMsg | ImageMsg | FileMsg

record metadata =
  emotion :: "string option"
  confidence :: "rat option"
  suggestedActions :: "string list option"

record chat_message =
  mid :: string
  sender :: sender
  content :: string
  timestamp :: int
  mtype :: message_type
  metadata :: "metadata option"

datatype conversation_status = Active | Completed | Archived

record conversation =
  cid :: string
  patientId :: string
  messages :: "chat_message list"
  summary :: string
  status :: conversation_status
  createdAt :: int
  updatedAt :: int

datatype alert_type = Health | Engagement | System

datatype severity = SevLow | SevMedium | SevHigh | SevCritical

datatype alert_status = AlertActive | Acknowledged | Resolved

record alert =
  aid :: string
  apatientId :: string
  atype :: alert_type
  aseverity :: severity
  amessage :: string
  atimestamp :: int
  astatus :: alert_status

record 'a api_response =
  success :: bool
  data :: "'a option"
  error :: "string option"
  message :: "string option"

record login_form =
  form_name :: string
  form_dateOfBirth :: string

subsection \<open>Module state\<close>

text \<open>
  The module keeps \<^verbatim>\<open>currentUser\<close>, \<^verbatim>\<open>currentPatient\<close>, \<^verbatim>\<open>conversations\<close> and
  \<^verbatim>\<open>alerts\<close> in module-level variables. Conversations are JavaScript objects that are
  mutated in place and may be shared between the array \<^verbatim>\<open>conversations\<close> and the
  constant \<^verbatim>\<open>mockConversation\<close>; so the array holds references and the objects live in
  a store. Reference \<open>mockRef\<close> is the object \<^verbatim>\<open>mockConversation\<close>.
\<close>

type_synonym ref = nat

record api_state =
  currentUser :: "user option"
  currentPatient :: "patient option"
  conversations :: "ref list"
  alerts :: "alert list"
  store :: "ref \<Rightarrow> conversation"

definition mockRef :: ref where
  "mockRef = 0"

definition mockPatient :: patient where
  "mockPatient = \<lparr> uid = ''1'', name = ''Sophia Carter'', dateOfBirth = ''1993-05-15'',
     email = None, avatar = None,
     age = Some 30, gender = Female, location = ''San Francisco, CA'',
     height = ''5'' @ [CHR 0x27] @ ''6'' @ [CHR 0x22], weight = ''135 lbs'',
     bmi = 45 / 2, bloodType = ''O+'', activityLevel = Moderate,
     dietaryPreferences = ''Vegetarian'', sleepHours = ''7-8 hours'', stressLevel = Low,
     allergies = [], chronicConditions = [], medications = [] \<rparr>"

subsection \<open>login\<close>

definition loginAvatar :: string where
  "loginAvatar = ''https://lh3.googleusercontent.com/aida-public/AB6AXuCkrmbCLea9oQATBsDwX15rlQDA6AzaF1N0u-n9oqgStMt74PYek3tBQHd85TUXsB2U5RV6P7Cn7GIlRgwo4UNhkGE-HO_ThwagyDgoDWPr5zGkDDCICl4Lu8UwitfOi4Pl9RiTYaijDBMR-kvcPOqqpP_L8ol1tSb2Y4O13IyTCknPi6BUf_csBGtyRNegXtwIr_C0JwzZGVpnNecfMb3u4GNTfhhqbX3pi0MvO9vJZ4Nm5mZ63Wwcq_RtbJbzPhdZ_IH06umKcRoH''"

text \<open>
  \<^verbatim>\<open>Math.floor((Date.now() - birthDate.getTime()) / (365.25 * 24 * 60 * 60 * 1000))\<close>:
  the divisor is 31557600000 and integer division on \<open>int\<close> rounds down, as
  \<^verbatim>\<open>Math.floor\<close> does. An unparsable date of birth gives \<^verbatim>\<open>NaN\<close>, here \<open>None\<close>.
\<close>

definition calcAge :: "int \<Rightarrow> int option \<Rightarrow> int option" where
  "calcAge now birth = (case birth of None \<Rightarrow> None | Some t \<Rightarrow> Some ((now - t) div 31557600000))"

text \<open>
  \<^verbatim>\<open>{ ...mockPatient, ...user, age }\<close>: the fields of \<^verbatim>\<open>mockPatient\<close>, overwritten by
  the four fields the \<^verbatim>\<open>user\<close> literal has (id, name, dateOfBirth, avatar), then by age.
\<close>

definition spreadPatient :: "patient \<Rightarrow> user \<Rightarrow> int option \<Rightarrow> patient" where
  "spreadPatient p u a =
     p\<lparr> uid := uid u, name := name u, dateOfBirth := dateOfBirth u, avatar := avatar u, age := a \<rparr>"

text \<open>
  \<open>login\<close> takes the clock reading \<open>now\<close> and the date parser \<open>parseDate\<close>
  (\<^verbatim>\<open>new Date(s).getTime()\<close>) from the environment. \<^verbatim>\<open>!credentials.name\<close> holds of a
  string exactly when it is empty.
\<close>

definition login :: "(string \<Rightarrow> int option) \<Rightarrow> int \<Rightarrow> login_form \<Rightarrow> api_state \<Rightarrow> user api_response \<times> api_state" where
  "login parseDate now credentials st =
     (if form_name credentials = [] \<or> form_dateOfBirth credentials = [] then
        (\<lparr> success = False, data = None,
           error = Some ''Name and date of birth are required'', message = None \<rparr>, st)
      else
        let birthDate = parseDate (form_dateOfBirth credentials);
            a = calcAge now birthDate;
            u = \<lparr> uid = ''1'', name = form_name credentials,
                  dateOfBirth = form_dateOfBirth credentials,
                  email = None, avatar = Some loginAvatar \<rparr>
        in (\<lparr> success = True, data = Some u, error = None, message = Some ''Login successful'' \<rparr>,
            st\<lparr> currentUser := Some u, currentPatient := Some (spreadPatient mockPatient u a) \<rparr>))"

subsection \<open>Conversations\<close>

text \<open>\<^verbatim>\<open>Date.now().toString()\<close>: the decimal digits of the clock reading.\<close>

fun digitsOf :: "nat \<Rightarrow> string" where
  "digitsOf n = (if n < 10 then [char_of (48 + n)] else digitsOf (n div 10) @ [char_of (48 + n mod 10)])"

declare digitsOf.simps [simp del]

definition toString :: "int \<Rightarrow> string" where
  "toString i = (if i < 0 then CHR ''-'' # digitsOf (nat (- i)) else digitsOf (nat i))"

text \<open>
  The constant \<^verbatim>\<open>mockConversation\<close>; its dates are computed from the clock when the
  module is loaded (\<open>t0\<close>).
\<close>

definition mockConversation :: "int \<Rightarrow> conversation" where
  "mockConversation t0 = \<lparr> cid = ''1'', patientId = ''1'',
     messages = [
       \<lparr> mid = ''1'', sender = FromAI, content = ''Hello, how can I assist you today?'',
         timestamp = t0 - 300000, mtype = TextMsg, metadata = None \<rparr>,
       \<lparr> mid = ''2'', sender = FromUser,
         content = ''I'' @ [CHR 0x27] @ ''ve been experiencing some fatigue lately and wanted to discuss it.'',
         timestamp = t0 - 240000, mtype = TextMsg, metadata = None \<rparr>,
       \<lparr> mid = ''3'', sender = FromAI,
         content = ''I understand. Let'' @ [CHR 0x27] @ ''s start by gathering some information. Can you describe the nature of your fatigue? Is it constant, or does it come and go?'',
         timestamp = t0 - 180000, mtype = TextMsg, metadata = None \<rparr>,
       \<lparr> mid = ''4'', sender = FromUser,
         content = ''It'' @ [CHR 0x27] @ ''s been pretty constant for the past few weeks, especially in the afternoons.'',
         timestamp = t0 - 120000, mtype = TextMsg, metadata = None \<rparr>,
       \<lparr> mid = ''5'', sender = FromAI,
         content = ''Okay. Have you noticed any other symptoms, such as changes in your sleep, appetite, or mood?'',
         timestamp = t0 - 60000, mtype = TextMsg, metadata = None \<rparr> ],
     summary = ''Sarah has been experiencing constant fatigue for the past few weeks, particularly in the afternoons. No other symptoms reported yet.'',
     status = Active, createdAt = t0 - 300000, updatedAt = t0 - 60000 \<rparr>"

text \<open>The module state right after loading: nobody logged in, no conversations, no alerts.\<close>

definition initialState :: "int \<Rightarrow> api_state" where
  "initialState t0 = \<lparr> currentUser = None, currentPatient = None, conversations = [],
     alerts = [], store = (\<lambda>r. mockConversation t0) \<rparr>"

definition logout :: "api_state \<Rightarrow> unit api_response \<times> api_state" where
  "logout st = (\<lparr> success = True, data = None, error = None, message = None \<rparr>,
                st\<lparr> currentUser := None, currentPatient := None \<rparr>)"

text \<open>\<^verbatim>\<open>getConversations\<close> fills the empty array with the one mock conversation.\<close>

definition getConversations :: "api_state \<Rightarrow> conversation list api_response \<times> api_state" where
  "getConversations st =
     (let st' = (if length (conversations st) = 0 then st\<lparr> conversations := [mockRef] \<rparr> else st)
      in (\<lparr> success = True, data = Some (map (store st') (conversations st')),
            error = None, message = None \<rparr>, st'))"

text \<open>
  \<^verbatim>\<open>conversations.find(c => c.id === id) || mockConversation\<close>: the first conversation of
  the array with that id, and the mock conversation when there is none.
\<close>

definition findConversation :: "string \<Rightarrow> api_state \<Rightarrow> ref" where
  "findConversation i st =
     (case find (\<lambda>r. cid (store st r) = i) (conversations st) of
        Some r \<Rightarrow> r
      | None \<Rightarrow> mockRef)"

definition getConversation :: "string \<Rightarrow> api_state \<Rightarrow> conversation api_response" where
  "getConversation i st =
     \<lparr> success = True, data = Some (store st (findConversation i st)), error = None, message = None \<rparr>"

text \<open>\<^verbatim>\<open>conversation.messages.push(m); conversation.updatedAt = new Date()\<close> on the object \<open>r\<close>.\<close>

definition pushMessage :: "ref \<Rightarrow> chat_message \<Rightarrow> int \<Rightarrow> api_state \<Rightarrow> api_state" where
  "pushMessage r m now st =
     st\<lparr> store := (store st)(r := (store st r)\<lparr> messages := messages (store st r) @ [m],
                                                updatedAt := now \<rparr>) \<rparr>"

definition newMessage :: "string \<Rightarrow> int \<Rightarrow> chat_message" where
  "newMessage c now = \<lparr> mid = toString now, sender = FromUser, content = c,
     timestamp = now, mtype = TextMsg, metadata = None \<rparr>"

text \<open>
  \<open>sendMessage\<close> appends the user's message to the conversation it finds and returns it.
  The clock readings of one call are taken as one instant \<open>now\<close>. The third component of
  the result is the conversation object that the timer callback has captured.
\<close>

definition sendMessage :: "string \<Rightarrow> string \<Rightarrow> int \<Rightarrow> api_state \<Rightarrow> chat_message api_response \<times> api_state \<times> ref" where
  "sendMessage conversationId c now st =
     (let m = newMessage c now;
          r = findConversation conversationId st
      in (\<lparr> success = True, data = Some m, error = None, message = None \<rparr>,
          pushMessage r m now st, r))"

definition responses :: "string list" where
  "responses = [
     ''I understand your concern. Let me help you explore this further.'',
     ''That'' @ [CHR 0x27] @ ''s important information. Can you tell me more about when this started?'',
     ''Thank you for sharing that. How does this affect your daily activities?'',
     ''I see. Have you noticed any patterns or triggers?'',
     ''That sounds challenging. What have you tried so far to manage this?'',
     ''I appreciate you bringing this up. Let'' @ [CHR 0x27] @ ''s work together to find solutions.'',
     ''This is valuable information. How would you rate the severity on a scale of 1-10?'',
     ''I'' @ [CHR 0x27] @ ''m here to support you. What would be most helpful for you right now?'']"

text \<open>
  \<^verbatim>\<open>responses[Math.floor(Math.random() * responses.length)]\<close>: the random draw is the
  argument \<open>i\<close>, an index below 8 (\<^verbatim>\<open>Math.random()\<close> is below 1). The user's message is
  not looked at.
\<close>

definition generateAIResponse :: "nat \<Rightarrow> string \<Rightarrow> string" where
  "generateAIResponse i userMessage = responses ! i"

text \<open>
  The callback that \<open>sendMessage\<close> hands to \<^verbatim>\<open>setTimeout\<close>: two seconds later it appends
  the reply to the same conversation object \<open>r\<close>.
\<close>

definition aiResponseCallback :: "ref \<Rightarrow> string \<Rightarrow> nat \<Rightarrow> int \<Rightarrow> api_state \<Rightarrow> api_state" where
  "aiResponseCallback r c i now st =
     pushMessage r \<lparr> mid = toString (now + 1), sender = FromAI, content = generateAIResponse i c,
                    timestamp = now, mtype = TextMsg, metadata = None \<rparr> now st"

text \<open>\<^verbatim>\<open>getAlerts\<close> fills the empty alert list with one fixed alert.\<close>

definition getAlerts :: "int \<Rightarrow> api_state \<Rightarrow> alert list api_response \<times> api_state" where
  "getAlerts now st =
     (let st' = (if length (alerts st) = 0 then
                   st\<lparr> alerts := [\<lparr> aid = ''1'', apatientId = ''1'', atype = Health,
                       aseverity = SevMedium,
                       amessage = ''Fatigue pattern detected - consider lifestyle adjustments'',
                       atimestamp = now - 3600000, astatus = AlertActive \<rparr>] \<rparr>
                 else st)
      in (\<lparr> success = True, data = Some (alerts st'), error = None, message = None \<rparr>, st'))"

text \<open>
  The calls a client can make, and the timer callbacks that run between them. A run of
  the service is a list of them.
\<close>

datatype api_call =
    Login "string \<Rightarrow> int option" int login_form
  | Logout
  | GetConversations
  | SendMessage string string int
  | AiResponse ref string nat int
  | GetAlerts int

fun exec :: "api_call \<Rightarrow> api_state \<Rightarrow> api_state" where
  "exec (Login pd now c) st = snd (login pd now c st)"
| "exec Logout st = snd (logout st)"
| "exec GetConversations st = snd (getConversations st)"
| "exec (SendMessage i c now) st = fst (snd (sendMessage i c now st))"
| "exec (AiResponse r c i now) st = aiResponseCallback r c i now st"
| "exec (GetAlerts now) st = snd (getAlerts now st)"

definition execAll :: "api_call list \<Rightarrow> api_state \<Rightarrow> api_state" where
  "execAll calls st = foldl (\<lambda>s c. exec c s) st calls"

section \<open>The patient chat page (src/complete-frontend/src/pages/PatientChatPage.tsx)\<close>

subsection \<open>State\<close>

text \<open>
  A chat entry is what the page hands to \<^verbatim>\<open>addMessage\<close>: sender, text and the ISO
  timestamp (a string read from the clock). The answers of the questionnaire, a
  \<^verbatim>\<open>Record<string, string>\<close>, are an association list from question ids to answers.
\<close>

datatype chat_sender = User | Bot

record chat_entry =
  entry_sender :: chat_sender
  entry_text :: string
  entry_timestamp :: string

type_synonym answers = "(string \<times> string) list"

text \<open>
  The page state: the chat of the chat context, the four \<^verbatim>\<open>useState\<close> cells, and what
  the asynchronous handlers have in flight. \<open>mounted\<close> is false once the page has
  navigated to the summary; \<open>sendPending\<close> says that \<open>handleSend\<close> is suspended at its
  \<^verbatim>\<open>await sendMessage(...)\<close>; \<open>submitPending\<close> holds the answers of the calls of
  \<open>handleQuestionnaireSubmit\<close> suspended at \<^verbatim>\<open>await saveQuestionnaireAnswers(...)\<close>.
\<close>

record page =
  chat :: "chat_entry list"
  input :: string
  loading :: bool
  showQuestionnaire :: bool
  questionnaireAnswers :: "answers option"
  mounted :: bool
  sendPending :: bool
  submitPending :: "answers list"

text \<open>
  Modelled from the spec: the chat context (\<^verbatim>\<open>../context/ChatContext\<close>: \<^verbatim>\<open>chat\<close>,
  \<^verbatim>\<open>addMessage\<close>, \<^verbatim>\<open>resetChat\<close>) is not among the sources. Conversation turns are
  append-only, so \<open>addMessage\<close> puts the entry at the end of the chat; a conversation
  starts with no turns, so the chat is empty at first and after \<open>resetChat\<close>.
\<close>

definition addMessage :: "chat_entry \<Rightarrow> page \<Rightarrow> page" where
  "addMessage m s = s\<lparr> chat := chat s @ [m] \<rparr>"

definition resetChat :: "page \<Rightarrow> page" where
  "resetChat s = s\<lparr> chat := [] \<rparr>"

definition initPage :: page where
  "initPage = \<lparr> chat = [], input = [], loading = False, showQuestionnaire = False,
     questionnaireAnswers = None, mounted = True, sendPending = False, submitPending = [] \<rparr>"

subsection \<open>Effects\<close>

text \<open>\<^verbatim>\<open>if (chat.length === 0) addMessage({sender: "bot", text: "How are you today?", ...})\<close>\<close>

definition greetEffect :: "string \<Rightarrow> page \<Rightarrow> page" where
  "greetEffect ts s =
     (if length (chat s) = 0 then
        addMessage \<lparr> entry_sender = Bot, entry_text = ''How are you today?'', entry_timestamp = ts \<rparr> s
      else s)"

text \<open>\<^verbatim>\<open>if (chat.length === 2 && chat[1].sender === "user") setShowQuestionnaire(true)\<close>\<close>

definition questionnaireEffect :: "page \<Rightarrow> page" where
  "questionnaireEffect s =
     (if length (chat s) = 2 \<and> entry_sender (chat s ! 1) = User then
        s\<lparr> showQuestionnaire := True \<rparr>
      else s)"

text \<open>
  After a state change React renders the page and runs the two effects, as long as the
  page is mounted. Both read the chat of that render; the first changes the chat only
  when it is empty, to a chat of length one, on which neither effect does anything in the
  render that follows. So running the second after the first gives the state the page
  settles in.
\<close>

definition runEffects :: "string \<Rightarrow> page \<Rightarrow> page" where
  "runEffects ts s = (if mounted s then questionnaireEffect (greetEffect ts s) else s)"

subsection \<open>Handlers\<close>

text \<open>
  \<^verbatim>\<open>String.prototype.trim\<close> removes white space and line terminators from both ends. A
  \<open>char\<close> is a character code below 256; of these, 9 to 13, 32 and 160 are white space.
\<close>

definition isWhiteSpace :: "char \<Rightarrow> bool" where
  "isWhiteSpace c = (let n = (of_char c :: nat) in (9 \<le> n \<and> n \<le> 13) \<or> n = 32 \<or> n = 160)"

definition trim :: "string \<Rightarrow> string" where
  "trim s = rev (dropWhile isWhiteSpace (rev (dropWhile isWhiteSpace s)))"

text \<open>
  \<open>handleSend\<close> up to its \<^verbatim>\<open>await\<close>: nothing at all on blank input; otherwise the
  user's entry is added and the page is loading while the reply is requested.
\<close>

definition handleSend :: "string \<Rightarrow> page \<Rightarrow> page" where
  "handleSend ts s =
     (if trim (input s) = [] then s
      else (addMessage \<lparr> entry_sender = User, entry_text = input s, entry_timestamp = ts \<rparr> s)
             \<lparr> loading := True, sendPending := True \<rparr>)"

text \<open>
  \<open>handleSend\<close> after its \<^verbatim>\<open>await\<close>, when the request has returned \<open>botMsg\<close>:
  \<^verbatim>\<open>addMessage(botMsg); setInput(""); setLoading(false)\<close>.
\<close>

definition handleSendResolved :: "chat_entry \<Rightarrow> page \<Rightarrow> page" where
  "handleSendResolved botMsg s =
     (addMessage botMsg s)\<lparr> input := [], loading := False, sendPending := False \<rparr>"

text \<open>
  When the request fails, the \<^verbatim>\<open>await\<close> throws; \<open>handleSend\<close> has no \<^verbatim>\<open>try\<close>, so the
  rest of it does not run.
\<close>

definition handleSendRejected :: "page \<Rightarrow> page" where
  "handleSendRejected s = s\<lparr> sendPending := False \<rparr>"

text \<open>\<open>handleQuestionnaireSubmit\<close> up to its \<^verbatim>\<open>await\<close>: \<^verbatim>\<open>setLoading(true)\<close>.\<close>

definition handleQuestionnaireSubmit :: "answers \<Rightarrow> page \<Rightarrow> page" where
  "handleQuestionnaireSubmit a s = s\<lparr> loading := True, submitPending := submitPending s @ [a] \<rparr>"

text \<open>
  \<open>handleQuestionnaireSubmit\<close> after its \<^verbatim>\<open>await\<close> (saving is a timer that always
  completes), for the call that has waited longest:
  \<^verbatim>\<open>setQuestionnaireAnswers(answers); setLoading(false); resetChat(); navigate("/summary")\<close>.
  Navigating away unmounts the page.
\<close>

definition handleQuestionnaireSaved :: "page \<Rightarrow> page" where
  "handleQuestionnaireSaved s =
     (case submitPending s of
        [] \<Rightarrow> s
      | a # rest \<Rightarrow>
          (resetChat (s\<lparr> questionnaireAnswers := Some a, loading := False \<rparr>))
            \<lparr> mounted := False, submitPending := rest \<rparr>)"

subsection \<open>What is rendered, and the events of a session\<close>

text \<open>
  The input and the Send button are rendered under \<^verbatim>\<open>!showQuestionnaire\<close> and disabled
  while loading; the questionnaire under \<^verbatim>\<open>showQuestionnaire && !questionnaireAnswers\<close>.
\<close>

definition inputVisible :: "page \<Rightarrow> bool" where
  "inputVisible s = (mounted s \<and> \<not> showQuestionnaire s)"

definition inputEnabled :: "page \<Rightarrow> bool" where
  "inputEnabled s = (inputVisible s \<and> \<not> loading s)"

definition questionnaireVisible :: "page \<Rightarrow> bool" where
  "questionnaireVisible s = (mounted s \<and> showQuestionnaire s \<and> questionnaireAnswers s = None)"

datatype page_event =
    Type string
  | Send
  | ReplyResolved chat_entry
  | ReplyRejected
  | Submit answers
  | Saved

fun enabled :: "page_event \<Rightarrow> page \<Rightarrow> bool" where
  "enabled (Type v) s = inputEnabled s"
| "enabled Send s = inputEnabled s"
| "enabled (ReplyResolved m) s = sendPending s"
| "enabled ReplyRejected s = sendPending s"
| "enabled (Submit a) s = questionnaireVisible s"
| "enabled Saved s = (submitPending s \<noteq> [])"

fun handle :: "string \<Rightarrow> page_event \<Rightarrow> page \<Rightarrow> page" where
  "handle ts (Type v) s = s\<lparr> input := v \<rparr>"
| "handle ts Send s = handleSend ts s"
| "handle ts (ReplyResolved m) s = handleSendResolved m s"
| "handle ts ReplyRejected s = handleSendRejected s"
| "handle ts (Submit a) s = handleQuestionnaireSubmit a s"
| "handle ts Saved s = handleQuestionnaireSaved s"

text \<open>
  One step: an event that the page cannot receive in its state is no event; otherwise
  its handler runs and then the effects. Every event comes with the clock reading \<open>ts\<close>
  of its moment.
\<close>

definition step :: "string \<times> page_event \<Rightarrow> page \<Rightarrow> page" where
  "step e s = (if enabled (snd e) s then runEffects (fst e) (handle (fst e) (snd e) s) else s)"

definition run :: "(string \<times> page_event) list \<Rightarrow> page \<Rightarrow> page" where
  "run evs s = foldl (\<lambda>s e. step e s) s evs"

text \<open>
  A session of the page: the first render shows \<open>initPage\<close>, the effects of mounting run
  at time \<open>ts0\<close>, then the events happen.
\<close>

definition session :: "string \<Rightarrow> (string \<times> page_event) list \<Rightarrow> page" where
  "session ts0 evs = run evs (runEffects ts0 initPage)"


subsection \<open>The phases of the specification\<close>

datatype phase = INIT | COMPANION | QUESTIONNAIRE | ANALYSIS | COMPLETE | ABORTED


text \<open>
  The phase a page state stands for. Before the greeting the chat is empty (INIT); while
  the page waits for the patient's first message it is the companion (COMPANION); while
  the questionnaire is shown it is the questionnaire (QUESTIONNAIRE); once the answers
  are in and the page has handed over to the summary, the questionnaire is complete
  (ANALYSIS). The page has no state for COMPLETE or ABORTED.
\<close>

definition phaseOf :: "page \<Rightarrow> phase" where
  "phaseOf s =
     (if questionnaireAnswers s \<noteq> None then ANALYSIS
      else if showQuestionnaire s then QUESTIONNAIRE
      else if chat s = [] then INIT
      else COMPANION)"




text \<open>
  What holds of the page at every moment of a session: until the questionnaire is shown,
  the chat is the greeting alone, nothing is in flight and no answers are in; and a
  mounted page has a chat that is not empty.
\<close>

definition pageInv :: "page \<Rightarrow> bool" where
  "pageInv s =
     ((\<not> showQuestionnaire s \<longrightarrow>
         length (chat s) = 1 \<and> \<not> loading s \<and> \<not> sendPending s \<and> mounted s
         \<and> submitPending s = [] \<and> questionnaireAnswers s = None)
      \<and> (mounted s \<longrightarrow> chat s \<noteq> []))"

text \<open>
  The specification's substantive utterance: not empty and not a greeting. The
  specification does not list the greetings; the salutations hello, hi and hey are taken
  to be among them.
\<close>

definition isGreeting :: "string \<Rightarrow> bool" where
  "isGreeting u = (trim u \<in> {''hello'', ''hi'', ''hey''})"

definition substantive :: "string \<Rightarrow> bool" where
  "substantive u = (trim u \<noteq> [] \<and> \<not> isGreeting u)"

section \<open>The questionnaire\<close>

subsection \<open>The static questionnaire (getQuestionnaire of questionnaireApi.ts, src/unnamed/part_002)\<close>

datatype question_type = TextQ | ChoiceQ

record question =
  qid :: string
  qtext :: string
  qtype :: question_type
  options :: "string list option"

record questionnaire =
  questionnaireId :: string
  questions :: "question list"

definition getQuestionnaire :: questionnaire where
  "getQuestionnaire = \<lparr> questionnaireId = ''q1'', questions = [
     \<lparr> qid = ''q1-1'', qtext = ''How many hours do you sleep per night?'', qtype = TextQ, options = None \<rparr>,
     \<lparr> qid = ''q1-2'', qtext = ''Do you experience headaches?'', qtype = ChoiceQ,
       options = Some [''Yes'', ''No''] \<rparr>,
     \<lparr> qid = ''q1-3'', qtext = ''How would you rate your appetite?'', qtype = ChoiceQ,
       options = Some [''Good'', ''Average'', ''Poor''] \<rparr> ] \<rparr>"

subsection \<open>The question adapter\<close>

text \<open>
  Modelled from the spec: the Question Bank and Adapter (\<open>nextQuestion\<close>) and the
  questionnaire turn of the Turn Processor belong to the agent backend, which is not
  among the sources; the sources only hold the static questionnaire above. What follows
  is sections 3, 4.2 and 4.3 of the specification.

  A template question is a question with its adaptation tag and, where the template has
  one, a simpler phrasing. A follow-up is unlocked by an answer \<open>onAnswer\<close> to a question
  tagged \<open>onTag\<close>, and has a priority. The emotional state is a label of the closed set
  with a confidence.
\<close>

datatype emotion_label = Calm | Anxious | Frustrated | Sad | Positive | Neutral

type_synonym emotional_state = "emotion_label \<times> rat"

record template_question =
  ask :: question
  tag :: string
  simpler :: "string option"

record followup =
  onTag :: string
  onAnswer :: string
  priority :: nat
  followupQuestion :: template_question

record template =
  base :: "template_question list"
  followups :: "followup list"

text \<open>Modelled from the spec: the option \<^verbatim>\<open>maxQuestionsPerSession\<close>, default 5.\<close>

definition maxQuestionsPerSession :: nat where
  "maxQuestionsPerSession = 5"

text \<open>Modelled from the spec: the adaptation tag of the question with a given id.\<close>

definition tagOf :: "template \<Rightarrow> string \<Rightarrow> string option" where
  "tagOf t i = map_option tag (find (\<lambda>q. qid (ask q) = i) (base t @ map followupQuestion (followups t)))"

text \<open>
  Modelled from the spec: the follow-ups that an answer given so far has unlocked and
  that have not been asked yet, in the order of their declaration.
\<close>

definition unlocked :: "template \<Rightarrow> (string \<times> string) list \<Rightarrow> followup list" where
  "unlocked t answered =
     filter (\<lambda>f. list_ex (\<lambda>r. tagOf t (fst r) = Some (onTag f) \<and> snd r = onAnswer f) answered
                \<and> qid (ask (followupQuestion f)) \<notin> set (map fst answered))
       (followups t)"

text \<open>Modelled from the spec: what is left of the base sequence.\<close>

definition remaining :: "template \<Rightarrow> (string \<times> string) list \<Rightarrow> template_question list" where
  "remaining t answered = filter (\<lambda>q. qid (ask q) \<notin> set (map fst answered)) (base t)"

text \<open>
  Modelled from the spec: for an anxious or sad patient, with confidence at least 0.6, the
  simpler phrasing is preferred if the template has one; otherwise the question is
  unchanged.
\<close>

definition simplify :: "emotional_state \<Rightarrow> template_question \<Rightarrow> template_question" where
  "simplify e q =
     (if (fst e = Anxious \<or> fst e = Sad) \<and> 6 / 10 \<le> snd e then
        (case simpler q of Some v \<Rightarrow> q\<lparr> ask := (ask q)\<lparr> qtext := v \<rparr> \<rparr> | None \<Rightarrow> q)
      else q)"

text \<open>
  Modelled from the spec: \<open>nextQuestion\<close>. None once the maximum question count is
  reached. Otherwise an unlocked follow-up goes ahead of the remaining base sequence, the
  one with the lowest priority number first and, among equals, the one declared first
  (\<open>sort_key\<close> is stable); then the base sequence in its order; None when both are
  exhausted.
\<close>

definition nextQuestion :: "nat \<Rightarrow> template \<Rightarrow> (string \<times> string) list \<Rightarrow> emotional_state \<Rightarrow> template_question option" where
  "nextQuestion maxQ t answered e =
     (if maxQ \<le> length answered then None
      else case sort_key priority (unlocked t answered) of
             f # _ \<Rightarrow> Some (simplify e (followupQuestion f))
           | [] \<Rightarrow> (case remaining t answered of
                       q # _ \<Rightarrow> Some (simplify e q)
                     | [] \<Rightarrow> None))"

text \<open>
  Modelled from the spec: the questionnaire phase of a session. The state holds the
  PROResponses recorded so far (question id and answer) and the question most recently
  asked. A turn brings the patient's utterance with its classified emotion; it records a
  response keyed to the question asked and asks the adapter for the next question. When
  there is no question to answer, the questionnaire is complete and nothing is recorded.
\<close>

record questionnaire_state =
  proResponses :: "(string \<times> string) list"
  asked :: "template_question option"

definition startQuestionnaire :: "nat \<Rightarrow> template \<Rightarrow> emotional_state \<Rightarrow> questionnaire_state" where
  "startQuestionnaire maxQ t e = \<lparr> proResponses = [], asked = nextQuestion maxQ t [] e \<rparr>"

definition questionnaireTurn :: "nat \<Rightarrow> template \<Rightarrow> string \<times> emotional_state \<Rightarrow> questionnaire_state \<Rightarrow> questionnaire_state" where
  "questionnaireTurn maxQ t u s =
     (case asked s of
        None \<Rightarrow> s
      | Some q \<Rightarrow>
          let rs = proResponses s @ [(qid (ask q), fst u)]
          in \<lparr> proResponses = rs, asked = nextQuestion maxQ t rs (snd u) \<rparr>)"

definition questionnaireRun :: "nat \<Rightarrow> template \<Rightarrow> emotional_state \<Rightarrow> (string \<times> emotional_state) list \<Rightarrow> questionnaire_state" where
  "questionnaireRun maxQ t e0 turns =
     foldl (\<lambda>s u. questionnaireTurn maxQ t u s) (startQuestionnaire maxQ t e0) turns"

text \<open>The static questionnaire as a template: no tags, no simpler phrasings, no follow-ups.\<close>

definition templateOf :: "questionnaire \<Rightarrow> template" where
  "templateOf q = \<lparr> base = map (\<lambda>x. \<lparr> ask = x, tag = [], simpler = None \<rparr>) (questions q), followups = [] \<rparr>"

text \<open>A template with two follow-ups on severe pain, to try the adapter on.\<close>

definition painTemplate :: template where
  "painTemplate = \<lparr> base = [
       \<lparr> ask = \<lparr> qid = ''energy'', qtext = ''How would you rate your overall energy level today?'',
                 qtype = ChoiceQ, options = Some [''Excellent'', ''Good'', ''Fair'', ''Poor''] \<rparr>,
         tag = ''fatigue'', simpler = Some ''How is your energy today?'' \<rparr>,
       \<lparr> ask = \<lparr> qid = ''pain'', qtext = ''Have you experienced any pain or discomfort recently?'',
                 qtype = ChoiceQ, options = Some [''No'', ''Mild'', ''Moderate'', ''Severe''] \<rparr>,
         tag = ''pain'', simpler = None \<rparr>,
       \<lparr> ask = \<lparr> qid = ''sleep'', qtext = ''How many hours did you sleep last night?'',
                 qtype = TextQ, options = None \<rparr>,
         tag = ''sleep'', simpler = None \<rparr> ],
     followups = [
       \<lparr> onTag = ''pain'', onAnswer = ''Severe'', priority = 2,
         followupQuestion = \<lparr> ask = \<lparr> qid = ''pain-when'', qtext = ''When did the pain start?'',
                 qtype = TextQ, options = None \<rparr>, tag = ''pain'', simpler = None \<rparr> \<rparr>,
       \<lparr> onTag = ''pain'', onAnswer = ''Severe'', priority = 1,
         followupQuestion = \<lparr> ask = \<lparr> qid = ''pain-location'', qtext = ''Where is the pain located?'',
                 qtype = TextQ, options = None \<rparr>, tag = ''pain'', simpler = None \<rparr> \<rparr> ] \<rparr>"

text \<open>What holds of the questionnaire state at every turn.\<close>

definition questionnaireInv :: "nat \<Rightarrow> questionnaire_state \<Rightarrow> bool" where
  "questionnaireInv maxQ s =
     (length (proResponses s) \<le> maxQ \<and> (asked s \<noteq> None \<longrightarrow> length (proResponses s) < maxQ))"

section \<open>The Trend and Risk Engine\<close>

text \<open>
  Modelled from the spec: the Trend and Risk Engine (\<open>analyze\<close>) belongs to the agent
  backend, which is not among the sources. What follows is sections 3, 4.4 and 7 of the
  specification. The specification leaves open how the trend of a metric family is
  computed from the history (section 9), so that computation is the parameter
  \<open>trendOf\<close>: for a family, the history and the responses of the current session it
  gives the family's trend signal, or None where the data do not suffice.
\<close>

datatype direction = Worsening | Stable | Improving

record pro_response =
  proSession :: string
  proQuestion :: string
  proAnswer :: string
  proSeverity :: "rat option"

record trend_signal =
  family :: string
  direction :: direction
  magnitude :: rat
  acute :: bool

record risk_config =
  families :: "string list"
  familyWeight :: "string \<Rightarrow> rat"
  riskAlertThreshold :: rat

record risk_assessment =
  score :: rat
  signals :: "string list"
  alertFlag :: bool
  recommendation :: string

text \<open>
  Modelled from the spec: the text backend of the recommendation. Either the fixed
  templates, or a generative backend, which may fail (None).
\<close>

datatype text_backend = Templates | Generative "string list \<Rightarrow> string option"

text \<open>Modelled from the spec: the name of a signal, as in ``sleep worsening''.\<close>

definition signalName :: "trend_signal \<Rightarrow> string" where
  "signalName t = family t @
     (case direction t of Worsening \<Rightarrow> '' worsening'' | Stable \<Rightarrow> '' stable'' | Improving \<Rightarrow> '' improving'')
     @ (if acute t then '' (acute change)'' else [])"

text \<open>Modelled from the spec: a signal is triggered by a worsening trend or an acute change.\<close>

definition triggered :: "trend_signal \<Rightarrow> bool" where
  "triggered t = (direction t = Worsening \<or> acute t)"

text \<open>
  Modelled from the spec: the term of a family in the weighted sum, its weight times the
  magnitude of a worsening change.
\<close>

definition contribution :: "risk_config \<Rightarrow> trend_signal \<Rightarrow> rat" where
  "contribution cfg t = (if direction t = Worsening then familyWeight cfg (family t) * magnitude t else 0)"

definition clamp01 :: "rat \<Rightarrow> rat" where
  "clamp01 x = max 0 (min 1 x)"

text \<open>Modelled from the spec: the fixed recommendation templates, one sentence for each signal.\<close>

definition templateText :: "string list \<Rightarrow> string" where
  "templateText sigs = concat (map (\<lambda>s. ''Please review: '' @ s @ ''. '') sigs)"

definition recommend :: "text_backend \<Rightarrow> string list \<Rightarrow> string" where
  "recommend backend sigs =
     (case backend of
        Templates \<Rightarrow> templateText sigs
      | Generative g \<Rightarrow> (case g sigs of Some txt \<Rightarrow> txt | None \<Rightarrow> templateText sigs))"

text \<open>
  Modelled from the spec: \<open>analyze\<close>. Without a trend for any family the assessment has
  the signal ``insufficient data'' and score 0. Otherwise the score is the weighted sum
  of the signals, clamped to the interval from 0 to 1; the alert is raised when the score
  reaches the threshold or any family shows an acute change; the recommendation is the
  text for the triggered signals.
\<close>

definition analyze :: "risk_config \<Rightarrow> (string \<Rightarrow> pro_response list \<Rightarrow> pro_response list \<Rightarrow> trend_signal option)
     \<Rightarrow> text_backend \<Rightarrow> pro_response list \<Rightarrow> pro_response list \<Rightarrow> risk_assessment" where
  "analyze cfg trendOf backend history current =
     (let ts = List.map_filter (\<lambda>f. trendOf f history current) (families cfg) in
      if ts = [] then
        \<lparr> score = 0, signals = [''insufficient data''], alertFlag = False,
          recommendation = recommend backend [''insufficient data''] \<rparr>
      else
        let sigs = map signalName (filter triggered ts);
            sc = clamp01 (sum_list (map (contribution cfg) ts))
        in \<lparr> score = sc, signals = sigs,
             alertFlag = (riskAlertThreshold cfg \<le> sc \<or> list_ex acute ts),
             recommendation = recommend backend sigs \<rparr>)"

text \<open>
  The text backend that the sources have: \<open>generateAIResponse\<close>, which answers with the
  canned reply of the random draw \<open>i\<close>.
\<close>

definition cannedBackend :: "nat \<Rightarrow> text_backend" where
  "cannedBackend i = Generative (\<lambda>sigs. Some (generateAIResponse i (concat sigs)))"

text \<open>A run of the service with other random draws: \<open>f\<close> replaces the draw of every reply.\<close>

fun redraw :: "(nat \<Rightarrow> nat) \<Rightarrow> api_call \<Rightarrow> api_call" where
  "redraw f (AiResponse r c i now) = AiResponse r c (f i) now"
| "redraw f call = call"

section \<open>The Session Orchestrator\<close>

text \<open>
  Modelled from the spec: the Session Orchestrator and the Turn Processor
  (\<open>startSession\<close>, \<open>submitTurn\<close>) belong to the agent backend, which is not among the
  sources: nothing under src/ holds a session with a phase, a COMPLETE or ABORTED state,
  or an error for a message that comes too late. What follows is sections 3, 4.3, 4.5, 6
  and 7 of the specification, over the adapter and the risk engine above. Timestamps are
  left out. The classifier and the AI capability are not modelled: the emotion that the
  classifier finds in the utterance and the text that the AI capability returns (None when
  it is unavailable or times out) come with each turn.
\<close>

datatype core_error = ValidationError | TransientDependencyError | StateError | CorruptionError

datatype speaker = PatientSpeaker | AgentSpeaker

record session_record =
  sessionPatient :: string
  sessionPhase :: phase
  turnCounter :: nat
  emotionHistory :: "emotional_state list"

record conversation_turn =
  turnSession :: string
  turnSeq :: nat
  turnSpeaker :: speaker
  turnText :: string
  turnEmotion :: "emotional_state option"

text \<open>
  Modelled from the spec: what the persistence interface holds: the sessions by their
  ids, and the append-only logs of turns, PROResponses and risk assessments.
\<close>

record core_store =
  sessionTable :: "string \<rightharpoonup> session_record"
  turnLog :: "conversation_turn list"
  responseLog :: "pro_response list"
  assessmentLog :: "(string \<times> risk_assessment) list"

record core_config =
  maxQuestions :: nat
  questionTemplate :: template
  riskConfig :: risk_config
  trendFor :: "string \<Rightarrow> pro_response list \<Rightarrow> pro_response list \<Rightarrow> trend_signal option"
  textBackend :: text_backend
  severityFor :: "string \<Rightarrow> string \<Rightarrow> rat option"

record turn_env =
  classified :: emotional_state
  aiText :: "string option"

text \<open>Modelled from the spec: the opening greeting, and the templated reply of the fallback.\<close>

definition greeting :: string where
  "greeting = ''How are you today?''"

definition templatedReply :: string where
  "templatedReply = ''Thank you for telling me.''"

definition emptyStore :: core_store where
  "emptyStore = \<lparr> sessionTable = Map.empty, turnLog = [], responseLog = [], assessmentLog = [] \<rparr>"

text \<open>
  Modelled from the spec: \<open>startSession\<close>. The session is created in INIT, emits the
  greeting and goes on to COMPANION at once, so COMPANION is the phase that is saved. The
  fresh session id comes from the caller.
\<close>

definition startSession :: "string \<Rightarrow> string \<Rightarrow> core_store \<Rightarrow> (string \<times> string) \<times> core_store" where
  "startSession sid patient st =
     ((sid, greeting),
      st\<lparr> sessionTable := (sessionTable st)(sid \<mapsto>
             \<lparr> sessionPatient = patient, sessionPhase = COMPANION, turnCounter = 1, emotionHistory = [] \<rparr>),
          turnLog := turnLog st @
             [\<lparr> turnSession = sid, turnSeq = 0, turnSpeaker = AgentSpeaker, turnText = greeting,
                turnEmotion = None \<rparr>] \<rparr>)"

text \<open>Modelled from the spec: the PROResponses of a session, and its answers so far.\<close>

definition sessionResponses :: "string \<Rightarrow> core_store \<Rightarrow> pro_response list" where
  "sessionResponses sid st = filter (\<lambda>r. proSession r = sid) (responseLog st)"

definition answeredSoFar :: "string \<Rightarrow> core_store \<Rightarrow> (string \<times> string) list" where
  "answeredSoFar sid st = map (\<lambda>r. (proQuestion r, proAnswer r)) (sessionResponses sid st)"

text \<open>Modelled from the spec: the PROResponses of the patient's other sessions, in order.\<close>

definition patientHistory :: "string \<Rightarrow> string \<Rightarrow> core_store \<Rightarrow> pro_response list" where
  "patientHistory patient sid st =
     filter (\<lambda>r. proSession r \<noteq> sid
                \<and> map_option sessionPatient (sessionTable st (proSession r)) = Some patient)
       (responseLog st)"

text \<open>
  Modelled from the spec: a turn is persisted: the patient's turn and the agent's reply
  are appended to the log, and the session is saved with its phase, turn counter and
  emotional-state history.
\<close>

definition recordTurn :: "string \<Rightarrow> session_record \<Rightarrow> string \<Rightarrow> emotional_state \<Rightarrow> string \<Rightarrow> phase \<Rightarrow> core_store \<Rightarrow> core_store" where
  "recordTurn sid s utterance e reply ph st =
     st\<lparr> sessionTable := (sessionTable st)(sid \<mapsto>
             s\<lparr> sessionPhase := ph, turnCounter := turnCounter s + 2,
                emotionHistory := emotionHistory s @ [e] \<rparr>),
         turnLog := turnLog st @
             [\<lparr> turnSession = sid, turnSeq = turnCounter s, turnSpeaker = PatientSpeaker,
                turnText = utterance, turnEmotion = Some e \<rparr>,
              \<lparr> turnSession = sid, turnSeq = turnCounter s + 1, turnSpeaker = AgentSpeaker,
                turnText = reply, turnEmotion = None \<rparr>] \<rparr>"

text \<open>Modelled from the spec: the ANALYSIS phase calls the Trend and Risk Engine.\<close>

definition runAnalysis :: "core_config \<Rightarrow> string \<Rightarrow> session_record \<Rightarrow> core_store \<Rightarrow> risk_assessment" where
  "runAnalysis cfg sid s st =
     analyze (riskConfig cfg) (trendFor cfg) (textBackend cfg)
       (patientHistory (sessionPatient s) sid st) (sessionResponses sid st)"

text \<open>
  Modelled from the spec: the adapter is asked for the next question. If there is one, it
  is the reply and the phase is QUESTIONNAIRE. If there is none, the questionnaire is
  complete: the session passes through ANALYSIS, the risk assessment is saved, and the
  session is COMPLETE, all within the turn.
\<close>

definition askOrFinish :: "core_config \<Rightarrow> string \<Rightarrow> session_record \<Rightarrow> string \<Rightarrow> emotional_state \<Rightarrow> core_store
     \<Rightarrow> (string \<times> phase \<times> emotional_state) \<times> core_store" where
  "askOrFinish cfg sid s utterance e st =
     (case nextQuestion (maxQuestions cfg) (questionTemplate cfg) (answeredSoFar sid st) e of
        Some q \<Rightarrow>
          ((qtext (ask q), QUESTIONNAIRE, e), recordTurn sid s utterance e (qtext (ask q)) QUESTIONNAIRE st)
      | None \<Rightarrow>
          let ra = runAnalysis cfg sid s st
          in ((recommendation ra, COMPLETE, e),
              (recordTurn sid s utterance e (recommendation ra) COMPLETE st)
                \<lparr> assessmentLog := assessmentLog st @ [(sid, ra)] \<rparr>))"

text \<open>
  Modelled from the spec: the question most recently asked, which is the one the adapter
  gives for the answers so far (the emotion changes its phrasing only).
\<close>

definition lastAsked :: "core_config \<Rightarrow> string \<Rightarrow> session_record \<Rightarrow> core_store \<Rightarrow> template_question option" where
  "lastAsked cfg sid s st =
     nextQuestion (maxQuestions cfg) (questionTemplate cfg) (answeredSoFar sid st)
       (if emotionHistory s = [] then (Neutral, 0) else last (emotionHistory s))"

text \<open>Modelled from the spec: a corrupted session record sends the session to ABORTED.\<close>

definition abortSession :: "string \<Rightarrow> session_record \<Rightarrow> core_store \<Rightarrow> core_store" where
  "abortSession sid s st = st\<lparr> sessionTable := (sessionTable st)(sid \<mapsto> s\<lparr> sessionPhase := ABORTED \<rparr>) \<rparr>"

text \<open>
  Modelled from the spec: \<open>submitTurn\<close>. The session is loaded and validated first: a
  message for a session that is COMPLETE or ABORTED is rejected with \<open>StateError\<close>; a
  record in a phase that is never saved (INIT, ANALYSIS), or a questionnaire without a
  question asked, is corrupted; empty input is a \<open>ValidationError\<close>, and so is an
  unknown session id. In COMPANION a substantive utterance opens the questionnaire, and
  any other utterance gets the acknowledgement, from the AI capability or, when that
  fails, from the template. In QUESTIONNAIRE the answer is recorded as a PROResponse
  keyed to the question asked, and the adapter is asked for the next one.
\<close>

definition submitTurn :: "core_config \<Rightarrow> string \<Rightarrow> string \<Rightarrow> turn_env \<Rightarrow> core_store
     \<Rightarrow> (core_error + string \<times> phase \<times> emotional_state) \<times> core_store" where
  "submitTurn cfg sid utterance env st =
     (case sessionTable st sid of
        None \<Rightarrow> (Inl ValidationError, st)
      | Some s \<Rightarrow>
          if sessionPhase s = COMPLETE \<or> sessionPhase s = ABORTED then (Inl StateError, st)
          else if sessionPhase s = INIT \<or> sessionPhase s = ANALYSIS then
            (Inl CorruptionError, abortSession sid s st)
          else if trim utterance = [] then (Inl ValidationError, st)
          else if sessionPhase s = COMPANION then
            (if substantive utterance then
               (case askOrFinish cfg sid s utterance (classified env) st of (r, st') \<Rightarrow> (Inr r, st'))
             else
               let reply = (case aiText env of Some txt \<Rightarrow> txt | None \<Rightarrow> templatedReply)
               in (Inr (reply, COMPANION, classified env),
                   recordTurn sid s utterance (classified env) reply COMPANION st))
          else
            (case lastAsked cfg sid s st of
               None \<Rightarrow> (Inl CorruptionError, abortSession sid s st)
             | Some q \<Rightarrow>
                 let st1 = st\<lparr> responseLog := responseLog st @
                             [\<lparr> proSession = sid, proQuestion = qid (ask q), proAnswer = utterance,
                                proSeverity = severityFor cfg (qid (ask q)) utterance \<rparr>] \<rparr>
                 in (case askOrFinish cfg sid s utterance (classified env) st1 of
                       (r, st') \<Rightarrow> (Inr r, st'))))"

definition submitAll :: "core_config \<Rightarrow> string \<Rightarrow> (string \<times> turn_env) list \<Rightarrow> core_store \<Rightarrow> core_store" where
  "submitAll cfg sid turns st = foldl (\<lambda>s u. snd (submitTurn cfg sid (fst u) (snd u) s)) st turns"

text \<open>
  A session to try the orchestrator on: the static questionnaire of the sources as the
  template, the default maximum, no tracked metric family, the fixed templates as text
  backend; the patient answers the greeting and the three questions, the AI capability
  being unavailable throughout.
\<close>

definition demoConfig :: core_config where
  "demoConfig = \<lparr> maxQuestions = maxQuestionsPerSession, questionTemplate = templateOf getQuestionnaire,
     riskConfig = \<lparr> families = [], familyWeight = (\<lambda>f. 1), riskAlertThreshold = 6 / 10 \<rparr>,
     trendFor = (\<lambda>f h c. None), textBackend = Templates, severityFor = (\<lambda>q a. None) \<rparr>"

definition calmEnv :: turn_env where
  "calmEnv = \<lparr> classified = (Calm, 7 / 10), aiText = None \<rparr>"

definition demoStore :: core_store where
  "demoStore = submitAll demoConfig ''s1''
      [(''I am okay, a bit tired.'', calmEnv), (''7'', calmEnv), (''No'', calmEnv), (''Good'', calmEnv)]
      (snd (startSession ''s1'' ''p1'' emptyStore))"

section \<open>Properties of the API service\<close>

subsection \<open>Messages are only ever appended\<close>

lemma pushMessage_messages:
  "messages (store (pushMessage r m now st) q) = messages (store st q) @ (if q = r then [m] else [])"
  by (simp add: pushMessage_def)

lemma exec_messages_prefix:
  "prefix (messages (store st q)) (messages (store (exec call st) q))"
proof (cases call)
  case (Login pd now c)
  then show ?thesis by (simp add: login_def Let_def)
next
  case Logout
  then show ?thesis by (simp add: logout_def)
next
  case GetConversations
  then show ?thesis by (simp add: getConversations_def Let_def)
next
  case (SendMessage i c now)
  then show ?thesis by (simp add: sendMessage_def Let_def pushMessage_messages)
next
  case (AiResponse r c i now)
  then show ?thesis by (simp add: aiResponseCallback_def pushMessage_messages)
next
  case (GetAlerts now)
  then show ?thesis by (simp add: getAlerts_def Let_def)
qed

lemma execAll_messages_prefix:
  "prefix (messages (store st q)) (messages (store (execAll calls st) q))"
proof (induction calls arbitrary: st)
  case Nil
  show ?case by (simp add: execAll_def)
next
  case (Cons call calls)
  have "prefix (messages (store st q)) (messages (store (exec call st) q))"
    by (rule exec_messages_prefix)
  also have "prefix \<dots> (messages (store (execAll calls (exec call st)) q))"
    by (rule Cons.IH)
  finally show ?case by (simp add: execAll_def)
qed

text \<open>
  C8. Conversation turns are append-only. \<open>sendMessage\<close> leaves the messages of every
  conversation object as they were and appends the new user message at the end of the
  conversation it addresses; the delayed AI reply does the same with the reply; and over
  any run of the service (logins, logouts, reads, sends, replies in any order) the
  messages a conversation had before the run are still there, unchanged and in the same
  places, as a prefix of the messages it has after the run.
\<close>

theorem messages_append_only:
  "messages (store (fst (snd (sendMessage i c now st))) q)
     = messages (store st q) @ (if q = findConversation i st then [newMessage c now] else [])
   \<and> messages (store (aiResponseCallback r c k now st) q)
     = messages (store st q) @
         (if q = r then [\<lparr> mid = toString (now + 1), sender = FromAI,
                            content = generateAIResponse k c, timestamp = now,
                            mtype = TextMsg, metadata = None \<rparr>] else [])
   \<and> prefix (messages (store st q)) (messages (store (execAll calls st) q))"
proof -
  have a: "messages (store (fst (snd (sendMessage i c now st))) q)
     = messages (store st q) @ (if q = findConversation i st then [newMessage c now] else [])"
    by (simp add: sendMessage_def Let_def pushMessage_messages)
  have b: "messages (store (aiResponseCallback r c k now st) q)
     = messages (store st q) @
         (if q = r then [\<lparr> mid = toString (now + 1), sender = FromAI,
                            content = generateAIResponse k c, timestamp = now,
                            mtype = TextMsg, metadata = None \<rparr>] else [])"
    by (simp add: aiResponseCallback_def pushMessage_messages)
  from a b execAll_messages_prefix [of st q calls] show ?thesis by blast
qed

subsection \<open>The status of a conversation\<close>

text \<open>
  No function of the service writes the status of a conversation, and no function reads
  it: after any run from the initial state every conversation is active.
\<close>

lemma exec_status: "status (store (exec call st) q) = status (store st q)"
  by (cases call) (simp_all add: login_def logout_def getConversations_def sendMessage_def
      aiResponseCallback_def getAlerts_def pushMessage_def Let_def)

lemma status_stays_active: "status (store (execAll calls (initialState t0)) q) = Active"
proof -
  have "status (store (execAll calls st) q) = status (store st q)" for st
    by (induction calls arbitrary: st) (simp_all add: execAll_def exec_status)
  then show ?thesis by (simp add: initialState_def mockConversation_def)
qed

subsection \<open>Login\<close>

text \<open>
  C10. For every credentials record with a non-empty name and a non-empty date of birth,
  login succeeds without consulting any stored user (the result does not depend on the
  state): it returns success with a user carrying exactly the submitted name and date of
  birth, and binds the session to the single mock patient record: the current patient has
  id '1', the submitted name and date of birth, and every other attribute of mockPatient
  but the age.
\<close>

theorem login_accepts_any_credentials:
  assumes "form_name c \<noteq> []" and "form_dateOfBirth c \<noteq> []"
  shows "success (fst (login parseDate now c st)) = True
       \<and> map_option name (data (fst (login parseDate now c st))) = Some (form_name c)
       \<and> map_option dateOfBirth (data (fst (login parseDate now c st))) = Some (form_dateOfBirth c)
       \<and> map_option uid (data (fst (login parseDate now c st))) = Some ''1''
       \<and> fst (login parseDate now c st) = fst (login parseDate now c st')
       \<and> currentUser (snd (login parseDate now c st)) = data (fst (login parseDate now c st))
       \<and> currentPatient (snd (login parseDate now c st))
           = Some (mockPatient\<lparr> uid := ''1'', name := form_name c,
                     dateOfBirth := form_dateOfBirth c, avatar := Some loginAvatar,
                     age := calcAge now (parseDate (form_dateOfBirth c)) \<rparr>)"
  using assms by (simp add: login_def Let_def spreadPatient_def)

theorem login_accepts_any_credentials_witness:
  "success (fst (login (\<lambda>s. Some 0) 31557600000
      \<lparr> form_name = ''Sarah'', form_dateOfBirth = ''1990-01-01'' \<rparr>
      \<lparr> currentUser = None, currentPatient = None, conversations = [], alerts = [],
        store = (\<lambda>r. \<lparr> cid = ''1'', patientId = ''1'', messages = [], summary = [],
                       status = Active, createdAt = 0, updatedAt = 0 \<rparr>) \<rparr>)) = True
   \<and> map_option name (data (fst (login (\<lambda>s. Some 0) 31557600000
      \<lparr> form_name = ''Sarah'', form_dateOfBirth = ''1990-01-01'' \<rparr>
      \<lparr> currentUser = None, currentPatient = None, conversations = [], alerts = [],
        store = (\<lambda>r. \<lparr> cid = ''1'', patientId = ''1'', messages = [], summary = [],
                       status = Active, createdAt = 0, updatedAt = 0 \<rparr>) \<rparr>))) = Some ''Sarah''"
  using login_accepts_any_credentials
    [of "\<lparr> form_name = ''Sarah'', form_dateOfBirth = ''1990-01-01'' \<rparr>" "\<lambda>s. Some 0" 31557600000]
  by simp

section \<open>Properties of the patient chat page\<close>

subsection \<open>The invariant of a session\<close>

lemmas page_defs = session_def run_def step_def runEffects_def initPage_def greetEffect_def
  questionnaireEffect_def addMessage_def resetChat_def inputEnabled_def inputVisible_def
  questionnaireVisible_def handleSend_def handleSendResolved_def handleSendRejected_def
  handleQuestionnaireSubmit_def handleQuestionnaireSaved_def trim_def isWhiteSpace_def

lemma pageInv_mount: "pageInv (runEffects ts0 initPage)"
  by (simp add: pageInv_def runEffects_def initPage_def greetEffect_def questionnaireEffect_def addMessage_def)

lemma showQuestionnaire_runEffects:
  "showQuestionnaire s \<Longrightarrow> showQuestionnaire (runEffects ts s)"
  by (simp add: runEffects_def greetEffect_def questionnaireEffect_def addMessage_def)

lemma showQuestionnaire_handle:
  "showQuestionnaire s \<Longrightarrow> showQuestionnaire (handle ts e s)"
  by (cases e) (simp_all add: handleSend_def handleSendResolved_def handleSendRejected_def
      handleQuestionnaireSubmit_def handleQuestionnaireSaved_def addMessage_def resetChat_def
      split: list.splits)

lemma showQuestionnaire_step:
  "showQuestionnaire s \<Longrightarrow> showQuestionnaire (step e s)"
  by (simp add: step_def showQuestionnaire_runEffects showQuestionnaire_handle)

lemma step_gate:
  assumes "pageInv s" "\<not> showQuestionnaire s"
  shows "showQuestionnaire (step (ts, e) s) = (e = Send \<and> trim (input s) \<noteq> [])"
  using assms
  by (cases e) (auto simp add: step_def pageInv_def inputEnabled_def inputVisible_def questionnaireVisible_def
      runEffects_def greetEffect_def questionnaireEffect_def handleSend_def addMessage_def nth_append)

lemma pageInv_step:
  assumes "pageInv s"
  shows "pageInv (step (ts, e) s)"
proof (cases "showQuestionnaire s")
  case True
  then have "showQuestionnaire (step (ts, e) s)" by (rule showQuestionnaire_step)
  moreover have "mounted (step (ts, e) s) \<longrightarrow> chat (step (ts, e) s) \<noteq> []"
    using assms
    by (cases e) (auto simp add: step_def pageInv_def runEffects_def greetEffect_def
        questionnaireEffect_def handleSend_def handleSendResolved_def handleSendRejected_def
        handleQuestionnaireSubmit_def handleQuestionnaireSaved_def addMessage_def resetChat_def
        split: list.splits)
  ultimately show ?thesis by (simp add: pageInv_def)
next
  case False
  with assms show ?thesis
    by (cases e) (auto simp add: step_def pageInv_def inputEnabled_def inputVisible_def questionnaireVisible_def
      runEffects_def greetEffect_def questionnaireEffect_def handleSend_def addMessage_def nth_append)
qed

lemma pageInv_run: "pageInv s \<Longrightarrow> pageInv (run evs s)"
proof (induction evs arbitrary: s)
  case Nil
  then show ?case by (simp add: run_def)
next
  case (Cons e evs)
  obtain ts ev where e: "e = (ts, ev)" by (cases e)
  from Cons.prems have "pageInv (step e s)" unfolding e by (rule pageInv_step)
  then have "pageInv (run evs (step e s))" by (rule Cons.IH)
  then show ?case by (simp add: run_def)
qed

lemma pageInv_session: "pageInv (session ts0 evs)"
  unfolding session_def by (rule pageInv_run [OF pageInv_mount])

subsection \<open>Phases\<close>













subsection \<open>The gate to the questionnaire\<close>

text \<open>
  C3, as the code has it. At every moment of every session, the questionnaire is shown
  after the next event exactly when it was shown before, or the event is a send and the
  text in the input is not blank (not empty once trimmed). Nothing else shows the
  questionnaire, and whether the text is a greeting is not looked at.
\<close>

theorem questionnaire_gate:
  "showQuestionnaire (step (ts, e) (session ts0 evs))
     = (showQuestionnaire (session ts0 evs) \<or> (e = Send \<and> trim (input (session ts0 evs)) \<noteq> []))"
proof (cases "showQuestionnaire (session ts0 evs)")
  case True
  then show ?thesis by (simp add: showQuestionnaire_step)
next
  case False
  then show ?thesis using step_gate [OF pageInv_session False] by simp
qed

text \<open>
  C3, as the claim states it, fails: the patient's only utterance is the greeting
  ``hello'', which is not substantive, and the questionnaire is shown.
\<close>

theorem greeting_opens_questionnaire:
  "showQuestionnaire (session ''t0'' [(''t1'', Type ''hello''), (''t2'', Send)])
   \<and> \<not> substantive ''hello''"
  by (simp add: session_def run_def step_def runEffects_def initPage_def greetEffect_def
      questionnaireEffect_def addMessage_def inputEnabled_def inputVisible_def handleSend_def
      trim_def isWhiteSpace_def substantive_def isGreeting_def)


subsection \<open>A reply request that fails\<close>

lemma sendPending_shown: "pageInv s \<Longrightarrow> sendPending s \<Longrightarrow> showQuestionnaire s"
  by (auto simp: pageInv_def)

lemma step_rejected:
  assumes "pageInv s" "sendPending s"
  shows "step (ts, ReplyRejected) s = s\<lparr> sendPending := False \<rparr>"
  using assms
  by (auto simp add: step_def pageInv_def runEffects_def greetEffect_def questionnaireEffect_def
      handleSendRejected_def)

text \<open>
  C7, as the claim states it, fails: the patient sends a message and the reply request
  fails. No reply is added to the chat (it holds the greeting and the patient's message),
  and the page stays loading, its input disabled; had the request succeeded, the chat
  would hold the reply and the page would not be loading.
\<close>

theorem failed_reply_blocks_page:
  "loading (session ''t0'' [(''t1'', Type ''I am tired''), (''t2'', Send), (''t3'', ReplyRejected)])
   \<and> length (chat (session ''t0'' [(''t1'', Type ''I am tired''), (''t2'', Send), (''t3'', ReplyRejected)])) = 2
   \<and> \<not> inputEnabled (session ''t0'' [(''t1'', Type ''I am tired''), (''t2'', Send), (''t3'', ReplyRejected)])
   \<and> \<not> loading (session ''t0'' [(''t1'', Type ''I am tired''), (''t2'', Send),
         (''t3'', ReplyResolved \<lparr> entry_sender = Bot, entry_text = ''ok'', entry_timestamp = ''t3'' \<rparr>)])
   \<and> length (chat (session ''t0'' [(''t1'', Type ''I am tired''), (''t2'', Send),
         (''t3'', ReplyResolved \<lparr> entry_sender = Bot, entry_text = ''ok'', entry_timestamp = ''t3'' \<rparr>)])) = 3"
  by (simp add: page_defs)

text \<open>
  C7, as the code has it. At every moment of every session, a reply request that fails
  adds no reply: the chat, the input and the loading flag stay as they are. The phase of
  the session is not affected by the failure: \<open>showQuestionnaire\<close>,
  \<open>questionnaireAnswers\<close> and the phase are what they would be, had the request
  returned a reply.
\<close>

theorem reply_failure:
  "chat (step (ts, ReplyRejected) (session ts0 evs)) = chat (session ts0 evs)
   \<and> loading (step (ts, ReplyRejected) (session ts0 evs)) = loading (session ts0 evs)
   \<and> input (step (ts, ReplyRejected) (session ts0 evs)) = input (session ts0 evs)
   \<and> showQuestionnaire (step (ts, ReplyRejected) (session ts0 evs))
       = showQuestionnaire (step (ts, ReplyResolved m) (session ts0 evs))
   \<and> questionnaireAnswers (step (ts, ReplyRejected) (session ts0 evs))
       = questionnaireAnswers (step (ts, ReplyResolved m) (session ts0 evs))
   \<and> phaseOf (step (ts, ReplyRejected) (session ts0 evs))
       = phaseOf (step (ts, ReplyResolved m) (session ts0 evs))"
proof (cases "sendPending (session ts0 evs)")
  case False
  then show ?thesis by (simp add: step_def)
next
  case True
  let ?s = "session ts0 evs"
  have inv: "pageInv ?s" by (rule pageInv_session)
  have shown: "showQuestionnaire ?s" using inv True by (rule sendPending_shown)
  have rej: "step (ts, ReplyRejected) ?s = ?s\<lparr> sendPending := False \<rparr>"
    using inv True by (rule step_rejected)
  have res1: "showQuestionnaire (step (ts, ReplyResolved m) ?s)"
    using shown by (rule showQuestionnaire_step)
  have res2: "questionnaireAnswers (step (ts, ReplyResolved m) ?s) = questionnaireAnswers ?s"
    by (simp add: step_def runEffects_def greetEffect_def questionnaireEffect_def
        handleSendResolved_def addMessage_def)
  show ?thesis using shown res1 res2 by (simp add: rej phaseOf_def)
qed

subsection \<open>Empty input\<close>

lemma runEffects_settled: "pageInv s \<Longrightarrow> runEffects ts s = s"
  by (auto simp: pageInv_def runEffects_def greetEffect_def questionnaireEffect_def)

text \<open>
  C6, as the claim states it, fails: \<open>sendMessage\<close> does not validate its input. An
  empty message is accepted (success, no error) and appended to the conversation.
\<close>

theorem empty_message_is_accepted:
  "success (fst (sendMessage ''1'' [] 1000 (initialState 0)))
   \<and> error (fst (sendMessage ''1'' [] 1000 (initialState 0))) = None
   \<and> length (messages (store (initialState 0) mockRef)) = 5
   \<and> length (messages (store (fst (snd (sendMessage ''1'' [] 1000 (initialState 0)))) mockRef)) = 6"
  by (simp add: initialState_def sendMessage_def findConversation_def
      mockRef_def mockConversation_def pushMessage_def Let_def)

text \<open>
  C6, as the code has it. Empty input is stopped where it is entered, and changes
  nothing there: \<open>login\<close> with an empty name or an empty date of birth fails with the
  error ``Name and date of birth are required'' and leaves the state of the service as
  it is; \<open>handleSend\<close> on a blank input (empty once trimmed) returns the page state as
  it is, and so does a send at any moment of a session at which the input is blank.
\<close>

theorem empty_input_changes_nothing:
  assumes "form_name c = [] \<or> form_dateOfBirth c = []" and "trim (input s) = []"
    and "trim (input (session ts0 evs)) = []"
  shows "login parseDate now c st
           = (\<lparr> success = False, data = None,
                error = Some ''Name and date of birth are required'', message = None \<rparr>, st)
       \<and> handleSend ts s = s
       \<and> step (ts, Send) (session ts0 evs) = session ts0 evs"
proof -
  have "runEffects ts (session ts0 evs) = session ts0 evs"
    using pageInv_session by (rule runEffects_settled)
  then show ?thesis using assms by (simp add: login_def handleSend_def step_def)
qed

theorem empty_input_changes_nothing_witness:
  "(form_name \<lparr> form_name = [], form_dateOfBirth = ''1990-01-01'' \<rparr> = []
      \<or> form_dateOfBirth \<lparr> form_name = [], form_dateOfBirth = ''1990-01-01'' \<rparr> = [])
   \<and> trim (input (initPage\<lparr> input := ''  '' \<rparr>)) = []
   \<and> trim (input (session ''t0'' [(''t1'', Type '' '')])) = []
   \<and> login (\<lambda>s. None) 0 \<lparr> form_name = [], form_dateOfBirth = ''1990-01-01'' \<rparr> (initialState 0)
           = (\<lparr> success = False, data = None,
                error = Some ''Name and date of birth are required'', message = None \<rparr>, initialState 0)
   \<and> handleSend ''t1'' (initPage\<lparr> input := ''  '' \<rparr>) = initPage\<lparr> input := ''  '' \<rparr>
   \<and> step (''t1'', Send) (session ''t0'' [(''t1'', Type '' '')]) = session ''t0'' [(''t1'', Type '' '')]"
proof -
  have h1: "form_name \<lparr> form_name = [], form_dateOfBirth = ''1990-01-01'' \<rparr> = []
      \<or> form_dateOfBirth \<lparr> form_name = [], form_dateOfBirth = ''1990-01-01'' \<rparr> = []" by simp
  have h2: "trim (input (initPage\<lparr> input := ''  '' \<rparr>)) = []"
    by (simp add: trim_def isWhiteSpace_def)
  have h3: "trim (input (session ''t0'' [(''t1'', Type '' '')])) = []"
    by (simp add: page_defs)
  from empty_input_changes_nothing [OF h1 h2 h3, of "\<lambda>s. None" 0 "initialState 0" "''t1''"] h1 h2 h3
  show ?thesis by simp
qed


section \<open>Properties of the questionnaire\<close>

lemma nextQuestion_Some_less: "nextQuestion maxQ t answered e = Some q \<Longrightarrow> length answered < maxQ"
  by (simp add: nextQuestion_def split: if_splits)

lemma questionnaireInv_start: "questionnaireInv maxQ (startQuestionnaire maxQ t e)"
  by (auto simp: questionnaireInv_def startQuestionnaire_def dest: nextQuestion_Some_less)

lemma questionnaireInv_turn:
  "questionnaireInv maxQ s \<Longrightarrow> questionnaireInv maxQ (questionnaireTurn maxQ t u s)"
  by (auto simp: questionnaireInv_def questionnaireTurn_def Let_def
      split: option.splits dest: nextQuestion_Some_less)

lemma questionnaireInv_foldl:
  "questionnaireInv maxQ s \<Longrightarrow> questionnaireInv maxQ (foldl (\<lambda>s u. questionnaireTurn maxQ t u s) s turns)"
  by (induction turns arbitrary: s) (simp_all add: questionnaireInv_turn)

text \<open>
  The adapter on a template with follow-ups: the answer ``Severe'' to the pain question
  unlocks two follow-ups, and the one with the lower priority number is asked next, ahead
  of the rest of the base sequence.
\<close>

lemma scenario_B:
  "map_option (qid \<circ> ask) (asked (questionnaireRun 5 painTemplate (Neutral, 1/2)
      [(''Good'', (Neutral, 1/2)), (''Severe'', (Neutral, 1/2))])) = Some ''pain-location''"
  by (simp add: questionnaireRun_def startQuestionnaire_def questionnaireTurn_def nextQuestion_def
      unlocked_def remaining_def tagOf_def painTemplate_def simplify_def Let_def)

text \<open>
  C5. In every session the number of recorded PROResponses is at most the maximum
  question count, whatever the template, the patient's utterances and emotions; and the
  adapter returns None once the maximum question count is reached, and once the base
  sequence and the unlocked follow-ups are exhausted.
\<close>

theorem responses_bounded:
  "length (proResponses (questionnaireRun maxQ t e0 turns)) \<le> maxQ
   \<and> (maxQ \<le> length answered \<longrightarrow> nextQuestion maxQ t answered e = None)
   \<and> (unlocked t answered = [] \<and> remaining t answered = [] \<longrightarrow> nextQuestion maxQ t answered e = None)"
proof -
  have "questionnaireInv maxQ (questionnaireRun maxQ t e0 turns)"
    unfolding questionnaireRun_def by (rule questionnaireInv_foldl [OF questionnaireInv_start])
  then have "length (proResponses (questionnaireRun maxQ t e0 turns)) \<le> maxQ"
    by (simp add: questionnaireInv_def)
  then show ?thesis by (simp add: nextQuestion_def)
qed


theorem responses_bounded_witness:
  "length (proResponses (questionnaireRun maxQuestionsPerSession (templateOf getQuestionnaire) (Neutral, 1 / 2)
       [(''7'', (Neutral, 1 / 2)), (''No'', (Sad, 7 / 10)), (''Good'', (Calm, 1)), (''more'', (Calm, 1))])) \<le> 5
   \<and> nextQuestion 2 (templateOf getQuestionnaire) [(''q1-1'', ''7''), (''q1-2'', ''No'')] (Neutral, 1 / 2) = None
   \<and> unlocked (templateOf getQuestionnaire) [(''q1-1'', ''7''), (''q1-2'', ''No''), (''q1-3'', ''Good'')] = []
   \<and> remaining (templateOf getQuestionnaire) [(''q1-1'', ''7''), (''q1-2'', ''No''), (''q1-3'', ''Good'')] = []
   \<and> nextQuestion maxQuestionsPerSession (templateOf getQuestionnaire)
        [(''q1-1'', ''7''), (''q1-2'', ''No''), (''q1-3'', ''Good'')] (Neutral, 1 / 2) = None"
proof -
  have h1: "(2::nat) \<le> length [(''q1-1'', ''7''), (''q1-2'', ''No'')]" by simp
  have h2: "unlocked (templateOf getQuestionnaire) [(''q1-1'', ''7''), (''q1-2'', ''No''), (''q1-3'', ''Good'')] = []
    \<and> remaining (templateOf getQuestionnaire) [(''q1-1'', ''7''), (''q1-2'', ''No''), (''q1-3'', ''Good'')] = []"
    by (simp add: unlocked_def remaining_def templateOf_def getQuestionnaire_def)
  from h1 h2
    responses_bounded [of maxQuestionsPerSession "templateOf getQuestionnaire" "(Neutral, 1 / 2)"
      "[(''7'', (Neutral, 1 / 2)), (''No'', (Sad, 7 / 10)), (''Good'', (Calm, 1)), (''more'', (Calm, 1))]"
      "[(''q1-1'', ''7''), (''q1-2'', ''No''), (''q1-3'', ''Good'')]" "(Neutral, 1 / 2)"]
    responses_bounded [of 2 "templateOf getQuestionnaire" "(Neutral, 1 / 2)" "[]"
      "[(''q1-1'', ''7''), (''q1-2'', ''No'')]" "(Neutral, 1 / 2)"]
  show ?thesis by (simp add: maxQuestionsPerSession_def)
qed


section \<open>Properties of the Trend and Risk Engine\<close>

lemma clamp01_range: "0 \<le> clamp01 x \<and> clamp01 x \<le> 1"
  by (simp add: clamp01_def)

lemma analyze_score_range:
  "0 \<le> score (analyze cfg trendOf b h c) \<and> score (analyze cfg trendOf b h c) \<le> 1"
  using clamp01_range by (simp add: analyze_def Let_def)

lemma analyze_acute_alert:
  "list_ex acute (List.map_filter (\<lambda>f. trendOf f h c) (families cfg))
     \<Longrightarrow> alertFlag (analyze cfg trendOf b h c)"
  by (auto simp add: analyze_def Let_def)

lemma alerts_exec_redraw:
  "alerts st = alerts st' \<Longrightarrow> alerts (exec (redraw f call) st) = alerts (exec call st')"
  by (cases call) (simp_all add: login_def logout_def getConversations_def sendMessage_def
      aiResponseCallback_def getAlerts_def pushMessage_def Let_def)

lemma alerts_execAll_redraw:
  "alerts st = alerts st' \<Longrightarrow> alerts (execAll (map (redraw f) calls) st) = alerts (execAll calls st')"
proof (induction calls arbitrary: st st')
  case Nil
  then show ?case by (simp add: execAll_def)
next
  case (Cons call calls)
  have "alerts (exec (redraw f call) st) = alerts (exec call st')"
    using Cons.prems by (rule alerts_exec_redraw)
  then have "alerts (execAll (map (redraw f) calls) (exec (redraw f call) st))
      = alerts (execAll calls (exec call st'))"
    by (rule Cons.IH)
  then show ?case by (simp add: execAll_def)
qed

text \<open>
  C2. The risk analysis is a function of the configuration, the history and the
  responses of the session: two runs on the same input give the same assessment. The
  score, the signals and the alert flag do not depend on the text backend: they are the
  same for any two backends, in particular for the canned replies of the sources under
  any two random draws. In the sources themselves, the alerts that the service holds
  after a run do not depend on the random draws of its replies.
\<close>

theorem risk_independent_of_text_backend:
  "score (analyze cfg trendOf b1 h c) = score (analyze cfg trendOf b2 h c)
   \<and> signals (analyze cfg trendOf b1 h c) = signals (analyze cfg trendOf b2 h c)
   \<and> alertFlag (analyze cfg trendOf b1 h c) = alertFlag (analyze cfg trendOf b2 h c)
   \<and> score (analyze cfg trendOf (cannedBackend i) h c) = score (analyze cfg trendOf (cannedBackend j) h c)
   \<and> alertFlag (analyze cfg trendOf (cannedBackend i) h c) = alertFlag (analyze cfg trendOf (cannedBackend j) h c)
   \<and> alerts (execAll (map (redraw f) calls) st) = alerts (execAll calls st)"
  using alerts_execAll_redraw [of st st f calls]
  by (simp add: analyze_def Let_def)



section \<open>Properties of the Session Orchestrator\<close>

lemmas core_defs = demoStore_def submitAll_def submitTurn_def startSession_def emptyStore_def
  demoConfig_def calmEnv_def askOrFinish_def lastAsked_def recordTurn_def answeredSoFar_def
  sessionResponses_def patientHistory_def runAnalysis_def abortSession_def
  nextQuestion_def unlocked_def remaining_def simplify_def tagOf_def templateOf_def getQuestionnaire_def
  maxQuestionsPerSession_def substantive_def isGreeting_def trim_def isWhiteSpace_def
  analyze_def recommend_def templateText_def List.map_filter_def Let_def


lemma demoStore_logs:
  "map proQuestion (responseLog demoStore) = [''q1-1'', ''q1-2'', ''q1-3'']
   \<and> length (turnLog demoStore) = 9 \<and> map fst (assessmentLog demoStore) = [''s1'']"
  by (simp add: core_defs)



end
